theory Spec2Isabelle
  imports Complex_Main "HOL-Library.Monad_Syntax"
begin

section \<open>Exceptions and HTTP results\<close>

text \<open>
  The backend is a FastAPI application (\<^verbatim>\<open>backend/server.py\<close>). Every handler either
  returns a value (HTTP 200) or raises. Two kinds of exception matter to the control
  flow of the source: \<^verbatim>\<open>HTTPException(status_code=n, ...)\<close>, which the framework turns
  into a response with status \<open>n\<close>, and every other Python exception (\<^verbatim>\<open>KeyError\<close>,
  \<^verbatim>\<open>TypeError\<close>, \<^verbatim>\<open>AttributeError\<close>, a pydantic \<^verbatim>\<open>ValidationError\<close>, a database driver
  error), which the handlers' \<^verbatim>\<open>except Exception\<close> clauses do not tell apart. The
  \<^verbatim>\<open>detail\<close> text of an \<^verbatim>\<open>HTTPException\<close> is not modelled.
\<close>

datatype exn = HTTPException nat | PyException

text \<open>The status code a client sees: 200 for a returned value, the exception's code for
  an \<^verbatim>\<open>HTTPException\<close>, and the framework's 500 for an exception nobody caught.\<close>

fun status_of :: "exn + 'a \<Rightarrow> nat" where
  "status_of (Inr v) = 200"
| "status_of (Inl (HTTPException n)) = n"
| "status_of (Inl PyException) = 500"

section \<open>Favorites: the data model\<close>

text \<open>
  \<^verbatim>\<open>FavoriteCreate\<close> is the request body of \<^verbatim>\<open>POST /favorites\<close>; \<^verbatim>\<open>FavoriteCharacter\<close>
  adds the two generated fields. The source's field \<^verbatim>\<open>id\<close> is called \<open>fav_id\<close> here
  (\<open>id\<close> is HOL's identity function). \<^verbatim>\<open>added_at\<close> is a \<^verbatim>\<open>datetime\<close>; the model keeps
  it as the clock reading it was made from.
\<close>

type_synonym datetime = int

record FavoriteCreate =
  user_id :: string
  character_id :: int
  character_name :: string

record FavoriteCharacter = FavoriteCreate +
  fav_id :: string
  added_at :: datetime

text \<open>
  The \<^verbatim>\<open>favorites\<close> collection of the document store, in the store's natural
  (insertion) order. Only documents written by \<^verbatim>\<open>add_favorite\<close> are modelled, so a
  document is a \<^verbatim>\<open>FavoriteCharacter\<close>.
\<close>

type_synonym collection = "FavoriteCharacter list"

text \<open>The filter \<^verbatim>\<open>{'user_id': u, 'character_id': c}\<close>.\<close>

definition matches :: "string \<Rightarrow> int \<Rightarrow> FavoriteCharacter \<Rightarrow> bool" where
  "matches u c d = (user_id d = u \<and> character_id d = c)"

text \<open>\<^verbatim>\<open>db.favorites.find_one(filter)\<close>: the first matching document, or \<^verbatim>\<open>None\<close>.\<close>

definition find_one :: "collection \<Rightarrow> string \<Rightarrow> int \<Rightarrow> FavoriteCharacter option" where
  "find_one db u c = find (matches u c) db"

text \<open>\<^verbatim>\<open>db.favorites.insert_one(doc)\<close>.\<close>

definition insert_one :: "collection \<Rightarrow> FavoriteCharacter \<Rightarrow> collection" where
  "insert_one db d = db @ [d]"

text \<open>\<^verbatim>\<open>db.favorites.delete_one(filter)\<close>: deletes the first matching document; the
  result is \<^verbatim>\<open>deleted_count\<close> and the collection afterwards.\<close>

fun delete_one :: "collection \<Rightarrow> string \<Rightarrow> int \<Rightarrow> nat \<times> collection" where
  "delete_one [] u c = (0, [])"
| "delete_one (d # ds) u c =
     (if matches u c d then (1, ds)
      else (case delete_one ds u c of (n, ds') \<Rightarrow> (n, d # ds')))"

text \<open>\<^verbatim>\<open>db.favorites.find({'user_id': u}).to_list(1000)\<close>.\<close>

definition find_to_list :: "collection \<Rightarrow> string \<Rightarrow> FavoriteCharacter list" where
  "find_to_list db u = take 1000 (filter (\<lambda>d. user_id d = u) db)"

section \<open>Favorites: the handlers\<close>

text \<open>
  What a call of \<^verbatim>\<open>add_favorite\<close> takes from its environment: the value of
  \<^verbatim>\<open>str(uuid.uuid4())\<close>, the value of \<^verbatim>\<open>datetime.now(timezone.utc)\<close>, and whether the
  driver raises in each of the two awaited database calls. A driver call that raises is
  taken to have left the collection as it was.
\<close>

record add_env =
  uuid4 :: string
  utcnow :: datetime
  find_one_raises :: bool
  insert_one_raises :: bool

text \<open>
  \<^verbatim>\<open>POST /favorites\<close>. The \<^verbatim>\<open>HTTPException\<close> of the duplicate check is re-raised as it
  is; any other exception becomes status 500.
\<close>

definition add_favorite ::
  "add_env \<Rightarrow> FavoriteCreate \<Rightarrow> collection \<Rightarrow> (exn + FavoriteCharacter) \<times> collection" where
  "add_favorite env favorite db =
     (if find_one_raises env then (Inl (HTTPException 500), db)
      else (case find_one db (user_id favorite) (character_id favorite) of
        Some existing \<Rightarrow> (Inl (HTTPException 400), db)
      | None \<Rightarrow>
          (let favorite_obj =
             \<lparr>user_id = user_id favorite, character_id = character_id favorite,
              character_name = character_name favorite,
              fav_id = uuid4 env, added_at = utcnow env\<rparr>
           in if insert_one_raises env then (Inl (HTTPException 500), db)
              else (Inr favorite_obj, insert_one db favorite_obj))))"

text \<open>\<^verbatim>\<open>GET /favorites/{user_id}\<close>; the argument says whether the driver raises.\<close>

definition get_favorites ::
  "bool \<Rightarrow> string \<Rightarrow> collection \<Rightarrow> exn + FavoriteCharacter list" where
  "get_favorites find_raises u db =
     (if find_raises then Inl (HTTPException 500) else Inr (find_to_list db u))"

text \<open>\<^verbatim>\<open>DELETE /favorites/{user_id}/{character_id}\<close>; the first argument says whether
  the driver raises. The returned dictionary is an association list.\<close>

definition remove_favorite ::
  "bool \<Rightarrow> string \<Rightarrow> int \<Rightarrow> collection \<Rightarrow> (exn + (string \<times> string) list) \<times> collection" where
  "remove_favorite delete_one_raises u c db =
     (if delete_one_raises then (Inl (HTTPException 500), db)
      else (case delete_one db u c of (deleted_count, db') \<Rightarrow>
        if deleted_count = 0 then (Inl (HTTPException 404), db')
        else (Inr [(''message'', ''Favorite removed successfully'')], db')))"

text \<open>A sequence of writes against the collection, each with its own environment.\<close>

datatype favorites_op =
    Add add_env FavoriteCreate
  | Remove bool string int

fun run_op :: "favorites_op \<Rightarrow> collection \<Rightarrow> collection" where
  "run_op (Add env favorite) db = snd (add_favorite env favorite db)"
| "run_op (Remove raises u c) db = snd (remove_favorite raises u c db)"

fun run_ops :: "favorites_op list \<Rightarrow> collection \<Rightarrow> collection" where
  "run_ops [] db = db"
| "run_ops (x # xs) db = run_ops xs (run_op x db)"

text \<open>The uniqueness invariant of the data model: no two documents share the pair
  (\<^verbatim>\<open>user_id\<close>, \<^verbatim>\<open>character_id\<close>).\<close>

definition unique_pairs :: "collection \<Rightarrow> bool" where
  "unique_pairs db = distinct (map (\<lambda>d. (user_id d, character_id d)) db)"

section \<open>The upstream catalog: values, requests, replies\<close>

text \<open>
  The value \<^verbatim>\<open>response.json()\<close> returns: \<^verbatim>\<open>None\<close>, a \<^verbatim>\<open>bool\<close>, an \<^verbatim>\<open>int\<close>, a \<^verbatim>\<open>str\<close>,
  a \<^verbatim>\<open>list\<close> or a \<^verbatim>\<open>dict\<close> with string keys (an association list whose keys are
  distinct, read with \<open>map_of\<close>), or a \<^verbatim>\<open>float\<close> for a JSON number with a fraction or an
  exponent. A finite float is kept as the rational number it stands for (every float is
  one, and only comparisons with 0 and 200 are made); \<open>JNonFinite\<close> stands for \<^verbatim>\<open>NaN\<close>,
  \<^verbatim>\<open>Infinity\<close> and \<^verbatim>\<open>-Infinity\<close>, which Python's decoder accepts.
\<close>

datatype json =
    JNull
  | JBool bool
  | JInt int
  | JFloat rat
  | JNonFinite
  | JStr string
  | JArr "json list"
  | JObj "(string \<times> json) list"

text \<open>Python's truth value of such a value (\<^verbatim>\<open>if x:\<close>, \<^verbatim>\<open>x and y\<close>).\<close>

fun truthy :: "json \<Rightarrow> bool" where
  "truthy JNull = False"
| "truthy (JBool b) = b"
| "truthy (JInt n) = (n \<noteq> 0)"
| "truthy (JFloat r) = (r \<noteq> 0)"
| "truthy JNonFinite = True"
| "truthy (JStr s) = (s \<noteq> [])"
| "truthy (JArr xs) = (xs \<noteq> [])"
| "truthy (JObj kvs) = (kvs \<noteq> [])"

text \<open>The comparison \<^verbatim>\<open>x == 200\<close>: true of the \<^verbatim>\<open>int\<close> 200 and of the \<^verbatim>\<open>float\<close> 200.0, false
  of everything else (\<^verbatim>\<open>True\<close> equals 1, not 200).\<close>

fun eq_200 :: "json \<Rightarrow> bool" where
  "eq_200 (JInt n) = (n = 200)"
| "eq_200 (JFloat r) = (r = 200)"
| "eq_200 x = False"

text \<open>
  The operations the source applies to parsed values. \<open>None\<close> stands for the Python
  exception the operation raises (none of them an \<^verbatim>\<open>HTTPException\<close> or a
  \<^verbatim>\<open>RequestException\<close>).

  \<^item> \<open>subscript x k\<close> is \<^verbatim>\<open>x['k']\<close>: \<^verbatim>\<open>KeyError\<close> on a dict without the key, \<^verbatim>\<open>TypeError\<close>
    on anything that is not a dict.
  \<^item> \<open>dict_get x k d\<close> is \<^verbatim>\<open>x.get('k', d)\<close>: \<^verbatim>\<open>AttributeError\<close> on anything that is not a
    dict.
  \<^item> \<open>first_item x\<close> is \<^verbatim>\<open>x[0]\<close>: the first element of a list, the first character of a
    string, \<^verbatim>\<open>IndexError\<close>, \<^verbatim>\<open>KeyError\<close> (a dict has no key \<^verbatim>\<open>0\<close>) or \<^verbatim>\<open>TypeError\<close>
    otherwise.
  \<^item> \<open>iterate x\<close> is what \<^verbatim>\<open>for y in x\<close> runs through: the elements of a list, the keys
    of a dict, the characters of a string; \<^verbatim>\<open>TypeError\<close> otherwise.
\<close>

fun subscript :: "json \<Rightarrow> string \<Rightarrow> json option" where
  "subscript (JObj kvs) k = map_of kvs k"
| "subscript x k = None"

fun dict_get :: "json \<Rightarrow> string \<Rightarrow> json \<Rightarrow> json option" where
  "dict_get (JObj kvs) k d = Some (case map_of kvs k of Some v \<Rightarrow> v | None \<Rightarrow> d)"
| "dict_get x k d = None"

fun first_item :: "json \<Rightarrow> json option" where
  "first_item (JArr (x # xs)) = Some x"
| "first_item (JStr (c # cs)) = Some (JStr [c])"
| "first_item x = None"

fun iterate :: "json \<Rightarrow> json list option" where
  "iterate (JArr xs) = Some xs"
| "iterate (JObj kvs) = Some (map (\<lambda>kv. JStr (fst kv)) kvs)"
| "iterate (JStr s) = Some (map (\<lambda>c. JStr [c]) s)"
| "iterate x = None"

text \<open>
  A query parameter is a \<^verbatim>\<open>str\<close> or an \<^verbatim>\<open>int\<close>; \<^verbatim>\<open>params\<close> is a Python dict, kept in
  insertion order. \<open>dict_set\<close> is \<^verbatim>\<open>params[k] = v\<close>.
\<close>

datatype pyval = PStr string | PInt int

type_synonym params = "(string \<times> pyval) list"

fun dict_set :: "params \<Rightarrow> string \<Rightarrow> pyval \<Rightarrow> params" where
  "dict_set [] k v = [(k, v)]"
| "dict_set ((k', v') # kvs) k v =
     (if k' = k then (k, v) # kvs else (k', v') # dict_set kvs k v)"

text \<open>The call \<^verbatim>\<open>requests.get(url, params=params, timeout=10)\<close>.\<close>

record request =
  url :: string
  params :: params
  timeout :: nat

text \<open>
  What \<^verbatim>\<open>response.json()\<close> does with the body of a response: it returns the decoded
  value, it raises \<^verbatim>\<open>requests.exceptions.JSONDecodeError\<close> (a \<^verbatim>\<open>RequestException\<close>), or it
  raises an exception that is not a \<^verbatim>\<open>RequestException\<close> (a \<^verbatim>\<open>RecursionError\<close> on deeply
  nested text, a \<^verbatim>\<open>ValueError\<close> on an over-long integer literal, the decoder's own error
  in a version of the library that does not wrap it).
\<close>

datatype body = Json json | JSONDecodeError | DecodeRaises

text \<open>
  What the network does with a request: \<^verbatim>\<open>requests.get\<close> raises a
  \<^verbatim>\<open>RequestException\<close> (connection failure, timeout), it raises an exception of another
  kind, or a response arrives with a status code and a body.
\<close>

datatype reply = RequestRaises | OtherRaises | Response nat body

section \<open>The upstream catalog: character records\<close>

record CharacterThumbnail =
  path :: string
  extension :: string

record CharacterUrl =
  url_type :: string
  link :: string

text \<open>The source's fields \<^verbatim>\<open>id\<close> of \<^verbatim>\<open>Character\<close> and \<^verbatim>\<open>type\<close>, \<^verbatim>\<open>url\<close> of
  \<^verbatim>\<open>CharacterUrl\<close> are \<open>char_id\<close>, \<open>url_type\<close> and \<open>link\<close> here.\<close>

record Character =
  char_id :: int
  name :: string
  description :: string
  thumbnail :: CharacterThumbnail
  resourceURI :: string
  urls :: "CharacterUrl list"
  comics_available :: int
  series_available :: int
  stories_available :: int
  events_available :: int

text \<open>
  What a call of the service takes from its environment:
  \<^item> \<open>unix_time\<close>: the value of \<^verbatim>\<open>int(time.time())\<close>;
  \<^item> \<open>md5_hexdigest\<close>: \<^verbatim>\<open>hashlib.md5(s.encode()).hexdigest()\<close> as a function of \<^verbatim>\<open>s\<close>;
  \<^item> \<open>http_get\<close>: what the network answers to each request;
  \<^item> \<open>int_field\<close>, \<open>str_field\<close>: pydantic's validation of a value given for a field
    declared \<^verbatim>\<open>int\<close> or \<^verbatim>\<open>str\<close> (\<open>None\<close>: \<^verbatim>\<open>ValidationError\<close>). Which values of another
    type pydantic converts depends on its version, so the validators are parameters.
\<close>

record world =
  unix_time :: int
  md5_hexdigest :: "string \<Rightarrow> string"
  http_get :: "request \<Rightarrow> reply"
  int_field :: "json \<Rightarrow> int option"
  str_field :: "json \<Rightarrow> string option"

text \<open>\<^verbatim>\<open>CharacterUrl(type=url['type'], url=url['url'])\<close>.\<close>

definition make_url :: "world \<Rightarrow> json \<Rightarrow> CharacterUrl option" where
  "make_url w u = do {
     t \<leftarrow> subscript u ''type'';
     l \<leftarrow> subscript u ''url'';
     t' \<leftarrow> str_field w t;
     l' \<leftarrow> str_field w l;
     Some \<lparr>url_type = t', link = l'\<rparr>
   }"

text \<open>\<^verbatim>\<open>char_data.get(key, {}).get('available', 0)\<close>, validated as an \<^verbatim>\<open>int\<close> field.\<close>

definition available :: "world \<Rightarrow> json \<Rightarrow> string \<Rightarrow> int option" where
  "available w char_data key = do {
     g \<leftarrow> dict_get char_data key (JObj []);
     a \<leftarrow> dict_get g ''available'' (JInt 0);
     int_field w a
   }"

text \<open>The construction \<^verbatim>\<open>Character(id=char_data['id'], ...)\<close>, the same in both
  operations of the service. Every step that can raise is a step of the option monad;
  since all these exceptions are of the one kind \<open>PyException\<close>, which of them comes
  first does not show in the result.\<close>

definition make_character :: "world \<Rightarrow> json \<Rightarrow> Character option" where
  "make_character w char_data = do {
     i \<leftarrow> subscript char_data ''id'';
     n \<leftarrow> subscript char_data ''name'';
     d \<leftarrow> dict_get char_data ''description'' (JStr ''No description available'');
     th \<leftarrow> subscript char_data ''thumbnail'';
     p \<leftarrow> subscript th ''path'';
     th' \<leftarrow> subscript char_data ''thumbnail'';
     e \<leftarrow> subscript th' ''extension'';
     p' \<leftarrow> str_field w p;
     e' \<leftarrow> str_field w e;
     r \<leftarrow> subscript char_data ''resourceURI'';
     us \<leftarrow> dict_get char_data ''urls'' (JArr []);
     us' \<leftarrow> iterate us;
     us'' \<leftarrow> those (map (make_url w) us');
     comics \<leftarrow> available w char_data ''comics'';
     series \<leftarrow> available w char_data ''series'';
     stories \<leftarrow> available w char_data ''stories'';
     events \<leftarrow> available w char_data ''events'';
     i' \<leftarrow> int_field w i;
     n' \<leftarrow> str_field w n;
     d' \<leftarrow> str_field w d;
     r' \<leftarrow> str_field w r;
     Some \<lparr>char_id = i', name = n', description = d',
           thumbnail = \<lparr>path = p', extension = e'\<rparr>,
           resourceURI = r', urls = us'',
           comics_available = comics, series_available = series,
           stories_available = stories, events_available = events\<rparr>
   }"

section \<open>The upstream catalog: the service\<close>

text \<open>The decimal text of an integer, Python's \<^verbatim>\<open>str(n)\<close>.\<close>

fun str_nat :: "nat \<Rightarrow> string" where
  "str_nat n =
     (if n < 10 then [''0123456789'' ! n]
      else str_nat (n div 10) @ [''0123456789'' ! (n mod 10)])"

definition str_int :: "int \<Rightarrow> string" where
  "str_int i = (if i < 0 then CHR ''-'' # str_nat (nat (- i)) else str_nat (nat i))"

text \<open>The object \<^verbatim>\<open>marvel_service\<close>: the credentials and the base URL read at start-up.\<close>

record MarvelAPIService =
  public_key :: string
  private_key :: string
  base_url :: string

text \<open>\<^verbatim>\<open>MarvelAPIService._generate_auth_params\<close>.\<close>

definition generate_auth_params :: "MarvelAPIService \<Rightarrow> world \<Rightarrow> params" where
  "generate_auth_params self w =
     (let timestamp = str_int (unix_time w);
          hash_string = timestamp @ private_key self @ public_key self;
          hash_md5 = md5_hexdigest w hash_string
      in [(''ts'', PStr timestamp), (''apikey'', PStr (public_key self)),
          (''hash'', PStr hash_md5)])"

text \<open>
  The part both operations share: \<^verbatim>\<open>requests.get\<close>, then \<^verbatim>\<open>raise_for_status()\<close> (an
  \<^verbatim>\<open>HTTPError\<close>, which is a \<^verbatim>\<open>RequestException\<close>, for a status from 400 to 599), then
  \<^verbatim>\<open>response.json()\<close>. The result is the decoded value or the kind of exception raised:
  the callers' \<^verbatim>\<open>except requests.exceptions.RequestException\<close> catches the first kind
  and lets the other through.
\<close>

datatype raised = RequestException | OtherException

definition fetch :: "world \<Rightarrow> request \<Rightarrow> raised + json" where
  "fetch w req =
     (case http_get w req of
        RequestRaises \<Rightarrow> Inl RequestException
      | OtherRaises \<Rightarrow> Inl OtherException
      | Response status_code b \<Rightarrow>
          if 400 \<le> status_code \<and> status_code < 600 then Inl RequestException
          else (case b of
                  Json data \<Rightarrow> Inr data
                | JSONDecodeError \<Rightarrow> Inl RequestException
                | DecodeRaises \<Rightarrow> Inl OtherException))"

text \<open>The dictionary \<^verbatim>\<open>get_characters\<close> returns.\<close>

record listing =
  characters :: "Character list"
  total :: json
  count_l :: json
  offset_l :: json

text \<open>The success branch of \<^verbatim>\<open>get_characters\<close>: the loop over
  \<^verbatim>\<open>data['data']['results']\<close> and the returned dictionary.\<close>

definition make_listing :: "world \<Rightarrow> json \<Rightarrow> listing option" where
  "make_listing w data = do {
     d \<leftarrow> subscript data ''data'';
     results \<leftarrow> subscript d ''results'';
     items \<leftarrow> iterate results;
     cs \<leftarrow> those (map (make_character w) items);
     d1 \<leftarrow> subscript data ''data'';
     t \<leftarrow> subscript d1 ''total'';
     d2 \<leftarrow> subscript data ''data'';
     c \<leftarrow> subscript d2 ''count'';
     d3 \<leftarrow> subscript data ''data'';
     off \<leftarrow> subscript d3 ''offset'';
     Some \<lparr>characters = cs, total = t, count_l = c, offset_l = off\<rparr>
   }"

text \<open>
  The body of \<^verbatim>\<open>MarvelAPIService.get_characters\<close>, without its \<^verbatim>\<open>lru_cache\<close>. The
  arguments are the tuple (\<^verbatim>\<open>name_starts_with\<close>, \<^verbatim>\<open>limit\<close>, \<^verbatim>\<open>offset\<close>). The result comes
  with the list of requests put on the network.
\<close>

type_synonym listing_args = "string option \<times> int \<times> int"

definition listing_request :: "MarvelAPIService \<Rightarrow> world \<Rightarrow> listing_args \<Rightarrow> request" where
  "listing_request self w args =
     (case args of (name_starts_with, limit, offset) \<Rightarrow>
        let params = generate_auth_params self w;
            params = dict_set params ''limit'' (PInt (min limit 100));
            params = dict_set params ''offset'' (PInt offset);
            params = (case name_starts_with of
                        None \<Rightarrow> params
                      | Some s \<Rightarrow> if s \<noteq> [] then dict_set params ''nameStartsWith'' (PStr s)
                                  else params)
        in \<lparr>url = base_url self @ ''/characters'', params = params, timeout = 10\<rparr>)"

definition service_get_characters ::
  "MarvelAPIService \<Rightarrow> world \<Rightarrow> listing_args \<Rightarrow> (exn + listing) \<times> request list" where
  "service_get_characters self w args =
     (let req = listing_request self w args in
      (case fetch w req of
         Inl RequestException \<Rightarrow> Inl (HTTPException 503)
       | Inl OtherException \<Rightarrow> Inl PyException
       | Inr data \<Rightarrow>
           (case subscript data ''code'' of
              None \<Rightarrow> Inl PyException
            | Some code \<Rightarrow>
                if eq_200 code then
                  (case make_listing w data of
                     None \<Rightarrow> Inl PyException
                   | Some r \<Rightarrow> Inr r)
                else
                  (case subscript data ''status'' of
                     None \<Rightarrow> Inl PyException
                   | Some s \<Rightarrow> Inl (HTTPException 400))),
       [req]))"

text \<open>The body of \<^verbatim>\<open>MarvelAPIService.get_character_by_id\<close>, without its \<^verbatim>\<open>lru_cache\<close>;
  \<open>cid\<close> is the argument \<^verbatim>\<open>character_id\<close>.\<close>

definition lookup_request :: "MarvelAPIService \<Rightarrow> world \<Rightarrow> int \<Rightarrow> request" where
  "lookup_request self w cid =
     \<lparr>url = base_url self @ ''/characters/'' @ str_int cid,
      params = generate_auth_params self w, timeout = 10\<rparr>"

definition service_get_character_by_id ::
  "MarvelAPIService \<Rightarrow> world \<Rightarrow> int \<Rightarrow> (exn + Character) \<times> request list" where
  "service_get_character_by_id self w cid =
     (let req = lookup_request self w cid in
      (case fetch w req of
         Inl RequestException \<Rightarrow> Inl (HTTPException 503)
       | Inl OtherException \<Rightarrow> Inl PyException
       | Inr data \<Rightarrow>
           (case subscript data ''code'' of
              None \<Rightarrow> Inl PyException
            | Some code \<Rightarrow>
                if eq_200 code then
                  (case Option.bind (subscript data ''data'') (\<lambda>d. subscript d ''results'') of
                     None \<Rightarrow> Inl PyException
                   | Some results \<Rightarrow>
                       if truthy results then
                         (case Option.bind (first_item results) (make_character w) of
                            None \<Rightarrow> Inl PyException
                          | Some c \<Rightarrow> Inr c)
                       else Inl (HTTPException 404))
                else Inl (HTTPException 404)),
       [req]))"

section \<open>The memoization cache and the routes\<close>

text \<open>
  \<^verbatim>\<open>functools.lru_cache(maxsize)\<close> around a function of one key. The cache is an
  association list, most recently used entry first. A hit returns the stored result and
  moves the entry to the front, with no call of the function. A miss calls the function;
  an exception it raises propagates and nothing is stored; a returned result is stored
  at the front, and when the cache already holds \<open>maxsize\<close> entries the least recently
  used one (the last) is dropped. With \<open>maxsize = 0\<close> nothing is ever stored.
\<close>

definition lru_cache ::
  "nat \<Rightarrow> ('k \<Rightarrow> (exn + 'v) \<times> request list) \<Rightarrow> ('k \<times> 'v) list \<Rightarrow> 'k \<Rightarrow>
   (exn + 'v) \<times> ('k \<times> 'v) list \<times> request list" where
  "lru_cache maxsize user_function cache key =
     (if maxsize = 0 then
        (case user_function key of (r, sent) \<Rightarrow> (r, cache, sent))
      else
        (case map_of cache key of
           Some result \<Rightarrow>
             (Inr result, (key, result) # filter (\<lambda>kv. fst kv \<noteq> key) cache, [])
         | None \<Rightarrow>
             (case user_function key of
                (Inl e, sent) \<Rightarrow> (Inl e, cache, sent)
              | (Inr result, sent) \<Rightarrow>
                  (Inr result,
                   (if length cache < maxsize then (key, result) # cache
                    else (key, result) # butlast cache),
                   sent))))"

text \<open>
  The two decorated methods as the routes call them. The key of
  \<^verbatim>\<open>marvel_service.get_characters(name_starts_with=search, limit=limit, offset=offset)\<close>
  is made of the arguments as they are passed: the decorator sees the call before the
  body runs.
\<close>

type_synonym listing_cache = "(listing_args \<times> listing) list"

type_synonym lookup_cache = "(int \<times> Character) list"

definition cached_get_characters ::
  "MarvelAPIService \<Rightarrow> world \<Rightarrow> listing_cache \<Rightarrow> listing_args \<Rightarrow>
   (exn + listing) \<times> listing_cache \<times> request list" where
  "cached_get_characters self w cache args =
     lru_cache 100 (service_get_characters self w) cache args"

definition cached_get_character_by_id ::
  "MarvelAPIService \<Rightarrow> world \<Rightarrow> lookup_cache \<Rightarrow> int \<Rightarrow>
   (exn + Character) \<times> lookup_cache \<times> request list" where
  "cached_get_character_by_id self w cache cid =
     lru_cache 50 (service_get_character_by_id self w) cache cid"

text \<open>
  \<^verbatim>\<open>GET /characters\<close>. The declarations \<^verbatim>\<open>Query(20, ge=1, le=100)\<close> and \<^verbatim>\<open>Query(0, ge=0)\<close>
  make the framework reject a request outside these bounds before the handler body
  runs (FastAPI answers such a request with status 422); \<open>limit\<close> and \<open>offset\<close> are the
  values after the defaults 20 and 0 have been filled in. In the body, the clause
  \<^verbatim>\<open>except Exception\<close> is the only one, so it also catches an \<^verbatim>\<open>HTTPException\<close>.
\<close>

definition get_characters ::
  "MarvelAPIService \<Rightarrow> world \<Rightarrow> listing_cache \<Rightarrow> string option \<Rightarrow> int \<Rightarrow> int \<Rightarrow>
   (exn + listing) \<times> listing_cache \<times> request list" where
  "get_characters self w cache search limit offset =
     (if limit < 1 \<or> 100 < limit \<or> offset < 0 then (Inl (HTTPException 422), cache, [])
      else
        (case cached_get_characters self w cache (search, limit, offset) of
           (Inl e, cache', sent) \<Rightarrow> (Inl (HTTPException 500), cache', sent)
         | (Inr result, cache', sent) \<Rightarrow> (Inr result, cache', sent)))"

text \<open>\<^verbatim>\<open>GET /characters/{character_id}\<close>: an \<^verbatim>\<open>HTTPException\<close> is re-raised as it is, any
  other exception becomes status 500.\<close>

definition get_character ::
  "MarvelAPIService \<Rightarrow> world \<Rightarrow> lookup_cache \<Rightarrow> int \<Rightarrow>
   (exn + Character) \<times> lookup_cache \<times> request list" where
  "get_character self w cache cid =
     (case cached_get_character_by_id self w cache cid of
        (Inl (HTTPException n), cache', sent) \<Rightarrow> (Inl (HTTPException n), cache', sent)
      | (Inl PyException, cache', sent) \<Rightarrow> (Inl (HTTPException 500), cache', sent)
      | (Inr character, cache', sent) \<Rightarrow> (Inr character, cache', sent))"

section \<open>Concrete values\<close>

text \<open>Values at which the theorems below are instantiated: two requests to bookmark
  character 1009610 for the same user under different names, an environment whose
  database driver does not raise, and the document the first request stores in it.\<close>

definition spiderman :: FavoriteCreate where
  "spiderman = \<lparr>user_id = ''u1'', character_id = 1009610, character_name = ''Spider-Man''\<rparr>"

definition spiderman_renamed :: FavoriteCreate where
  "spiderman_renamed =
     \<lparr>user_id = ''u1'', character_id = 1009610, character_name = ''Peter Parker''\<rparr>"

definition quiet_env :: add_env where
  "quiet_env = \<lparr>uuid4 = ''a3f1'', utcnow = 1700000000,
                 find_one_raises = False, insert_one_raises = False\<rparr>"

definition spiderman_doc :: FavoriteCharacter where
  "spiderman_doc =
     \<lparr>user_id = ''u1'', character_id = 1009610, character_name = ''Spider-Man'',
      fav_id = ''a3f1'', added_at = 1700000000\<rparr>"

definition hulk_doc :: FavoriteCharacter where
  "hulk_doc =
     \<lparr>user_id = ''u1'', character_id = 1009351, character_name = ''Hulk'',
      fav_id = ''77c0'', added_at = 1690000000\<rparr>"

text \<open>
  For the service: credentials, the upstream's response envelope around a list of
  results, one catalog entry, and a world in which the clock reads 1700000000 and the
  network answers every request with the same reply. \<open>md5_known\<close> is
  \<^verbatim>\<open>hashlib.md5(s.encode()).hexdigest()\<close> on the one string these examples sign;
  \<open>strict_int\<close> and \<open>strict_str\<close> validate as pydantic does on values that already have
  the declared type, and reject all others.
\<close>

definition marvel_service :: MarvelAPIService where
  "marvel_service =
     \<lparr>public_key = ''pub1'', private_key = ''s3cret'',
      base_url = ''https://gateway.marvel.com/v1/public''\<rparr>"

definition md5_known :: "string \<Rightarrow> string" where
  "md5_known s =
     (if s = ''1700000000s3cretpub1'' then ''82a04d403b5cc0f459dbc7554d71217b'' else [])"

fun strict_int :: "json \<Rightarrow> int option" where
  "strict_int (JInt n) = Some n"
| "strict_int x = None"

fun strict_str :: "json \<Rightarrow> string option" where
  "strict_str (JStr s) = Some s"
| "strict_str x = None"

definition world_with :: "reply \<Rightarrow> world" where
  "world_with r =
     \<lparr>unix_time = 1700000000, md5_hexdigest = md5_known, http_get = (\<lambda>req. r),
      int_field = strict_int, str_field = strict_str\<rparr>"

definition envelope :: "int \<Rightarrow> json list \<Rightarrow> json" where
  "envelope code results =
     JObj [(''code'', JInt code), (''status'', JStr ''Ok''),
           (''data'', JObj [(''offset'', JInt 0), (''total'', JInt 1564),
                           (''count'', JInt (int (length results))),
                           (''results'', JArr results)])]"

definition spiderman_json :: json where
  "spiderman_json =
     JObj [(''id'', JInt 1009610), (''name'', JStr ''Spider-Man''),
           (''thumbnail'', JObj [(''path'', JStr ''http://i.annihil.us/u/prod/marvel/i/mg/3/50/526548a343e4b''),
                                (''extension'', JStr ''jpg'')]),
           (''resourceURI'', JStr ''http://gateway.marvel.com/v1/public/characters/1009610''),
           (''comics'', JObj [(''available'', JInt 4402)])]"

definition spiderman_record :: Character where
  "spiderman_record =
     \<lparr>char_id = 1009610, name = ''Spider-Man'', description = ''No description available'',
      thumbnail = \<lparr>path = ''http://i.annihil.us/u/prod/marvel/i/mg/3/50/526548a343e4b'',
                   extension = ''jpg''\<rparr>,
      resourceURI = ''http://gateway.marvel.com/v1/public/characters/1009610'',
      urls = [], comics_available = 4402, series_available = 0,
      stories_available = 0, events_available = 0\<rparr>"

text \<open>A world whose network answers every request with HTTP status 200 and a
  successful envelope around the given results, and the page \<^verbatim>\<open>get_characters\<close> makes
  of the envelope without results.\<close>

definition ok_world :: "json list \<Rightarrow> world" where
  "ok_world results = world_with (Response 200 (Json (envelope 200 results)))"

definition empty_page :: listing where
  "empty_page = \<lparr>characters = [], total = JInt 1564, count_l = JInt 0, offset_l = JInt 0\<rparr>"

section \<open>Favorites: the store operations\<close>

lemma find_one_None_iff: "find_one db u c = None \<longleftrightarrow> (\<forall>d \<in> set db. \<not> matches u c d)"
  by (auto simp: find_one_def find_None_iff)

lemma find_one_Some_matches: "find_one db u c = Some d \<Longrightarrow> d \<in> set db \<and> matches u c d"
  by (auto simp: find_one_def find_Some_iff)

lemma delete_one_no_match:
  "\<forall>d \<in> set db. \<not> matches u c d \<Longrightarrow> delete_one db u c = (0, db)"
  by (induction db) auto

lemma delete_one_first_match:
  "\<forall>x \<in> set xs. \<not> matches u c x \<Longrightarrow> matches u c d \<Longrightarrow>
   delete_one (xs @ d # ys) u c = (1, xs @ ys)"
  by (induction xs) auto

lemma split_first_match:
  "\<exists>d \<in> set db. P d \<Longrightarrow> \<exists>xs d ys. db = xs @ d # ys \<and> P d \<and> (\<forall>x \<in> set xs. \<not> P x)"
  by (metis split_list_first_prop)

lemma delete_one_count: "fst (delete_one db u c) = 0 \<longleftrightarrow> (\<forall>d \<in> set db. \<not> matches u c d)"
  by (induction db) (auto split: prod.splits)

lemma delete_one_sublist: "set (snd (delete_one db u c)) \<subseteq> set db"
  by (induction db) (auto split: prod.splits)

lemma delete_one_unique: "unique_pairs db \<Longrightarrow> unique_pairs (snd (delete_one db u c))"
proof (induction db)
  case Nil
  then show ?case by simp
next
  case (Cons d ds)
  have sub: "set (snd (delete_one ds u c)) \<subseteq> set ds"
    by (rule delete_one_sublist)
  from Cons show ?case
    using sub by (auto simp: unique_pairs_def split: prod.splits)
qed


section \<open>Favorites: adding\<close>

text \<open>
  Claim C5. \<^verbatim>\<open>add_favorite\<close>, with a database driver that does not raise: when a
  document with the same (\<^verbatim>\<open>user_id\<close>, \<^verbatim>\<open>character_id\<close>) is in the collection the call
  fails with status 400 and the collection is unchanged; otherwise exactly one document
  is appended, it carries the identifier and the timestamp generated in this call and
  the three fields of the request, and it is the value returned (status 200).
\<close>

theorem add_favorite_duplicate_or_insert:
  assumes "\<not> find_one_raises env" and "\<not> insert_one_raises env"
  shows "((\<exists>d \<in> set db. matches (user_id favorite) (character_id favorite) d) \<longrightarrow>
            add_favorite env favorite db = (Inl (HTTPException 400), db))
       \<and> ((\<forall>d \<in> set db. \<not> matches (user_id favorite) (character_id favorite) d) \<longrightarrow>
            (\<exists>stored.
               add_favorite env favorite db = (Inr stored, db @ [stored])
             \<and> status_of (fst (add_favorite env favorite db)) = 200
             \<and> fav_id stored = uuid4 env \<and> added_at stored = utcnow env
             \<and> user_id stored = user_id favorite
             \<and> character_id stored = character_id favorite
             \<and> character_name stored = character_name favorite))"
proof (intro conjI impI)
  assume "\<exists>d \<in> set db. matches (user_id favorite) (character_id favorite) d"
  then have "find_one db (user_id favorite) (character_id favorite) \<noteq> None"
    by (simp add: find_one_None_iff)
  then obtain e where "find_one db (user_id favorite) (character_id favorite) = Some e"
    by blast
  with assms show "add_favorite env favorite db = (Inl (HTTPException 400), db)"
    by (simp add: add_favorite_def)
next
  assume "\<forall>d \<in> set db. \<not> matches (user_id favorite) (character_id favorite) d"
  then have none: "find_one db (user_id favorite) (character_id favorite) = None"
    by (simp add: find_one_None_iff)
  show "\<exists>stored.
               add_favorite env favorite db = (Inr stored, db @ [stored])
             \<and> status_of (fst (add_favorite env favorite db)) = 200
             \<and> fav_id stored = uuid4 env \<and> added_at stored = utcnow env
             \<and> user_id stored = user_id favorite
             \<and> character_id stored = character_id favorite
             \<and> character_name stored = character_name favorite"
    using assms none by (simp add: add_favorite_def insert_one_def Let_def)
qed

theorem add_favorite_duplicate_or_insert_witness:
  "add_favorite quiet_env spiderman [hulk_doc] = (Inr spiderman_doc, [hulk_doc, spiderman_doc])
   \<and> add_favorite quiet_env spiderman [hulk_doc, spiderman_doc]
       = (Inl (HTTPException 400), [hulk_doc, spiderman_doc])"
  using add_favorite_duplicate_or_insert [of quiet_env "[hulk_doc]" spiderman]
    add_favorite_duplicate_or_insert [of quiet_env "[hulk_doc, spiderman_doc]" spiderman]
  by (simp add: add_favorite_def find_one_def insert_one_def matches_def Let_def
      quiet_env_def spiderman_def spiderman_doc_def hulk_doc_def)

text \<open>
  Claim C10. The duplicate check of \<^verbatim>\<open>add_favorite\<close> looks at \<^verbatim>\<open>user_id\<close> and
  \<^verbatim>\<open>character_id\<close> only: whatever \<^verbatim>\<open>character_name\<close> the request gives, when a document
  of the collection has the request's user and character the call fails with status
  400 and the collection, so also that document and its name, is as before.
\<close>

theorem add_favorite_ignores_name:
  assumes "\<not> find_one_raises env"
    and "d \<in> set db"
    and "user_id favorite = user_id d"
    and "character_id favorite = character_id d"
  shows "add_favorite env (favorite\<lparr>character_name := n\<rparr>) db = (Inl (HTTPException 400), db)
       \<and> status_of (fst (add_favorite env (favorite\<lparr>character_name := n\<rparr>) db)) = 400
       \<and> d \<in> set (snd (add_favorite env (favorite\<lparr>character_name := n\<rparr>) db))"
proof -
  let ?f = "favorite\<lparr>character_name := n\<rparr>"
  from assms have "matches (user_id ?f) (character_id ?f) d"
    by (simp add: matches_def)
  with assms(2) have "find_one db (user_id ?f) (character_id ?f) \<noteq> None"
    unfolding find_one_None_iff by blast
  then obtain e where "find_one db (user_id ?f) (character_id ?f) = Some e"
    by blast
  with assms(1) have "add_favorite env ?f db = (Inl (HTTPException 400), db)"
    by (simp add: add_favorite_def)
  with assms(2) show ?thesis by simp
qed

theorem add_favorite_ignores_name_witness:
  "add_favorite quiet_env spiderman_renamed [hulk_doc, spiderman_doc]
     = (Inl (HTTPException 400), [hulk_doc, spiderman_doc])
   \<and> character_name spiderman_renamed \<noteq> character_name spiderman_doc
   \<and> map character_name (snd (add_favorite quiet_env spiderman_renamed [hulk_doc, spiderman_doc]))
     = [''Hulk'', ''Spider-Man'']"
  using add_favorite_ignores_name
    [of quiet_env spiderman_doc "[hulk_doc, spiderman_doc]" spiderman "''Peter Parker''"]
  by (simp add: quiet_env_def spiderman_def spiderman_renamed_def spiderman_doc_def hulk_doc_def)

section \<open>Favorites: uniqueness of the pair\<close>

lemma add_favorite_unique:
  assumes "unique_pairs db"
  shows "unique_pairs (snd (add_favorite env favorite db))"
proof (cases "find_one db (user_id favorite) (character_id favorite)")
  case None
  then have "\<forall>d \<in> set db. \<not> matches (user_id favorite) (character_id favorite) d"
    by (simp add: find_one_None_iff)
  then have "(user_id favorite, character_id favorite)
               \<notin> set (map (\<lambda>d. (user_id d, character_id d)) db)"
    by (auto simp: matches_def)
  with assms None show ?thesis
    by (simp add: add_favorite_def insert_one_def unique_pairs_def Let_def)
next
  case (Some e)
  with assms show ?thesis by (simp add: add_favorite_def)
qed

lemma remove_favorite_unique:
  assumes "unique_pairs db"
  shows "unique_pairs (snd (remove_favorite raises u c db))"
proof (cases "delete_one db u c")
  case (Pair n db')
  with delete_one_unique [OF assms, of u c] assms show ?thesis
    by (simp add: remove_favorite_def)
qed

lemma run_op_unique: "unique_pairs db \<Longrightarrow> unique_pairs (run_op x db)"
  by (cases x) (simp_all add: add_favorite_unique remove_favorite_unique)

text \<open>
  Claim C6. Run one after another, any sequence of \<^verbatim>\<open>add_favorite\<close> and
  \<^verbatim>\<open>remove_favorite\<close> calls, started on a collection with at most one document per
  (\<^verbatim>\<open>user_id\<close>, \<^verbatim>\<open>character_id\<close>), ends in such a collection, whatever the requests are
  and whether or not the driver raises in any of them.
\<close>

theorem favorites_pairs_stay_unique:
  "unique_pairs db \<Longrightarrow> unique_pairs (run_ops ops db)"
proof (induction ops arbitrary: db)
  case Nil
  then show ?case by simp
next
  case (Cons x xs)
  from Cons.prems have "unique_pairs (run_op x db)"
    by (rule run_op_unique)
  then show ?case
    using Cons.IH by simp
qed

theorem favorites_pairs_stay_unique_witness:
  "unique_pairs [hulk_doc]
   \<and> run_ops [Add quiet_env spiderman, Add quiet_env spiderman_renamed,
              Remove False ''u1'' 1009351, Add quiet_env spiderman] [hulk_doc]
     = [spiderman_doc]
   \<and> unique_pairs (run_ops [Add quiet_env spiderman, Add quiet_env spiderman_renamed,
              Remove False ''u1'' 1009351, Add quiet_env spiderman] [hulk_doc])"
proof -
  have u: "unique_pairs [hulk_doc]"
    by (simp add: unique_pairs_def)
  have r: "run_ops [Add quiet_env spiderman, Add quiet_env spiderman_renamed,
              Remove False ''u1'' 1009351, Add quiet_env spiderman] [hulk_doc]
     = [spiderman_doc]"
    by (simp add: add_favorite_def remove_favorite_def find_one_def insert_one_def matches_def
        Let_def quiet_env_def spiderman_def spiderman_renamed_def spiderman_doc_def hulk_doc_def)
  from favorites_pairs_stay_unique [OF u, of "[Add quiet_env spiderman,
      Add quiet_env spiderman_renamed, Remove False ''u1'' 1009351, Add quiet_env spiderman]"]
    r u show ?thesis
    by simp
qed

section \<open>Favorites: removing\<close>

text \<open>
  Claim C7. \<^verbatim>\<open>remove_favorite\<close>, with a database driver that does not raise, fails
  with status 404 if and only if no document of the collection has the given
  (\<^verbatim>\<open>user_id\<close>, \<^verbatim>\<open>character_id\<close>), and then the collection is unchanged. Otherwise it
  returns the confirmation message (status 200) and the collection loses exactly one
  document, the first one that matches, however many match.
\<close>

theorem remove_favorite_not_found_iff:
  assumes "\<not> raises"
  shows "(fst (remove_favorite raises u c db) = Inl (HTTPException 404)
            \<longleftrightarrow> (\<forall>d \<in> set db. \<not> matches u c d))
       \<and> ((\<forall>d \<in> set db. \<not> matches u c d) \<longrightarrow>
            remove_favorite raises u c db = (Inl (HTTPException 404), db))
       \<and> ((\<exists>d \<in> set db. matches u c d) \<longrightarrow>
            (\<exists>xs d ys. db = xs @ d # ys \<and> matches u c d \<and> (\<forall>x \<in> set xs. \<not> matches u c x)
               \<and> remove_favorite raises u c db
                   = (Inr [(''message'', ''Favorite removed successfully'')], xs @ ys)
               \<and> status_of (fst (remove_favorite raises u c db)) = 200
               \<and> length (snd (remove_favorite raises u c db)) + 1 = length db))"
proof (intro conjI impI)
  show "fst (remove_favorite raises u c db) = Inl (HTTPException 404)
            \<longleftrightarrow> (\<forall>d \<in> set db. \<not> matches u c d)"
  proof (cases "delete_one db u c")
    case (Pair n db')
    with delete_one_count [of db u c] assms show ?thesis
      by (simp add: remove_favorite_def)
  qed
next
  assume "\<forall>d \<in> set db. \<not> matches u c d"
  then have "delete_one db u c = (0, db)"
    by (rule delete_one_no_match)
  with assms show "remove_favorite raises u c db = (Inl (HTTPException 404), db)"
    by (simp add: remove_favorite_def)
next
  assume "\<exists>d \<in> set db. matches u c d"
  then obtain xs d ys where
    split: "db = xs @ d # ys" "matches u c d" "\<forall>x \<in> set xs. \<not> matches u c x"
    using split_first_match [of db "matches u c"] by blast
  then have "delete_one db u c = (1, xs @ ys)"
    by (simp add: delete_one_first_match)
  with assms have "remove_favorite raises u c db
      = (Inr [(''message'', ''Favorite removed successfully'')], xs @ ys)"
    by (simp add: remove_favorite_def)
  with split show "\<exists>xs d ys. db = xs @ d # ys \<and> matches u c d
      \<and> (\<forall>x \<in> set xs. \<not> matches u c x)
      \<and> remove_favorite raises u c db
          = (Inr [(''message'', ''Favorite removed successfully'')], xs @ ys)
      \<and> status_of (fst (remove_favorite raises u c db)) = 200
      \<and> length (snd (remove_favorite raises u c db)) + 1 = length db"
    by auto
qed

theorem remove_favorite_not_found_iff_witness:
  "remove_favorite False ''u1'' 1009610 [hulk_doc] = (Inl (HTTPException 404), [hulk_doc])
   \<and> remove_favorite False ''u1'' 1009610
        [hulk_doc, spiderman_doc, spiderman_doc\<lparr>fav_id := ''b222''\<rparr>]
      = (Inr [(''message'', ''Favorite removed successfully'')],
         [hulk_doc, spiderman_doc\<lparr>fav_id := ''b222''\<rparr>])"
  using remove_favorite_not_found_iff [of False "''u1''" 1009610 "[hulk_doc]"]
  by (simp add: remove_favorite_def matches_def spiderman_doc_def hulk_doc_def)

text \<open>
  Claim C8. For every collection and every request whose (\<^verbatim>\<open>user_id\<close>,
  \<^verbatim>\<open>character_id\<close>) is in no document of it, with a database driver that does not raise:
  \<^verbatim>\<open>add_favorite\<close> succeeds, the \<^verbatim>\<open>remove_favorite\<close> of the same pair that follows
  succeeds, the collection is then the one before the add, and so \<^verbatim>\<open>get_favorites\<close>
  returns for that user (and for every other) the list it returned before the add.
\<close>

theorem add_remove_round_trip:
  assumes "\<not> find_one_raises env" and "\<not> insert_one_raises env"
    and "\<forall>d \<in> set db. \<not> matches (user_id favorite) (character_id favorite) d"
  shows "status_of (fst (add_favorite env favorite db)) = 200
       \<and> status_of (fst (remove_favorite False (user_id favorite) (character_id favorite)
                           (snd (add_favorite env favorite db)))) = 200
       \<and> snd (remove_favorite False (user_id favorite) (character_id favorite)
                (snd (add_favorite env favorite db))) = db
       \<and> get_favorites raises u
            (snd (remove_favorite False (user_id favorite) (character_id favorite)
                   (snd (add_favorite env favorite db))))
          = get_favorites raises u db"
proof -
  let ?stored = "\<lparr>user_id = user_id favorite, character_id = character_id favorite,
      character_name = character_name favorite, fav_id = uuid4 env, added_at = utcnow env\<rparr>"
  from assms(3) have "find_one db (user_id favorite) (character_id favorite) = None"
    by (simp add: find_one_None_iff)
  with assms(1,2) have added: "add_favorite env favorite db = (Inr ?stored, db @ [?stored])"
    by (simp add: add_favorite_def insert_one_def Let_def)
  have "matches (user_id favorite) (character_id favorite) ?stored"
    by (simp add: matches_def)
  with assms(3) have "delete_one (db @ ?stored # []) (user_id favorite) (character_id favorite)
      = (1, db @ [])"
    by (rule delete_one_first_match)
  then have removed: "remove_favorite False (user_id favorite) (character_id favorite)
      (db @ [?stored]) = (Inr [(''message'', ''Favorite removed successfully'')], db)"
    by (simp add: remove_favorite_def)
  from added removed show ?thesis by simp
qed

theorem add_remove_round_trip_witness:
  "get_favorites False ''u1'' [hulk_doc] = Inr [hulk_doc]
   \<and> get_favorites False ''u1'' (snd (add_favorite quiet_env spiderman [hulk_doc]))
       = Inr [hulk_doc, spiderman_doc]
   \<and> get_favorites False ''u1''
        (snd (remove_favorite False ''u1'' 1009610
               (snd (add_favorite quiet_env spiderman [hulk_doc]))))
       = Inr [hulk_doc]"
  using add_remove_round_trip [of quiet_env "[hulk_doc]" spiderman False "''u1''"]
  by (simp add: add_favorite_def remove_favorite_def get_favorites_def find_to_list_def
      find_one_def insert_one_def matches_def Let_def
      quiet_env_def spiderman_def spiderman_doc_def hulk_doc_def)

section \<open>The service: requests\<close>

lemma map_of_dict_set: "map_of (dict_set ps k v) = (map_of ps)(k \<mapsto> v)"
  by (induction ps) (auto simp: fun_eq_iff)

lemma generate_auth_params_eq:
  "generate_auth_params self w =
     [(''ts'', PStr (str_int (unix_time w))), (''apikey'', PStr (public_key self)),
      (''hash'', PStr (md5_hexdigest w
         (str_int (unix_time w) @ private_key self @ public_key self)))]"
  by (simp add: generate_auth_params_def Let_def)

lemma listing_request_params:
  "params (listing_request self w (n, limit, offset)) =
     generate_auth_params self w
     @ [(''limit'', PInt (min limit 100)), (''offset'', PInt offset)]
     @ (case n of None \<Rightarrow> [] | Some s \<Rightarrow> if s \<noteq> [] then [(''nameStartsWith'', PStr s)] else [])"
  by (simp add: listing_request_def generate_auth_params_eq Let_def split: option.splits)

lemma lru_cache_result:
  "0 < maxsize \<Longrightarrow>
   fst (lru_cache maxsize f cache key) =
     (case map_of cache key of Some v \<Rightarrow> Inr v | None \<Rightarrow> fst (f key))"
  by (auto simp: lru_cache_def split: option.splits prod.splits sum.splits)

lemma lru_cache_sent:
  "0 < maxsize \<Longrightarrow>
   snd (snd (lru_cache maxsize f cache key)) =
     (case map_of cache key of Some v \<Rightarrow> [] | None \<Rightarrow> snd (f key))"
  by (auto simp: lru_cache_def split: option.splits prod.splits sum.splits)

lemma lru_cache_stores:
  "0 < maxsize \<Longrightarrow> lru_cache maxsize f cache key = (Inr v, cache', sent) \<Longrightarrow>
   map_of cache' key = Some v"
  by (auto simp: lru_cache_def split: option.splits prod.splits sum.splits if_splits)

lemma lru_cache_failure:
  "0 < maxsize \<Longrightarrow> lru_cache maxsize f cache key = (Inl e, cache', sent) \<Longrightarrow>
   cache' = cache \<and> map_of cache key = None \<and> f key = (Inl e, sent)"
  by (auto simp: lru_cache_def split: option.splits prod.splits sum.splits if_splits)

lemma map_of_butlast_None: "map_of xs k = None \<Longrightarrow> map_of (butlast xs) k = None"
  by (auto simp: map_of_eq_None_iff dest: in_set_butlastD)

lemma lru_cache_other_key:
  assumes "0 < maxsize" and "lru_cache maxsize f cache key = (r, cache', sent)"
    and "key' \<noteq> key" and "map_of cache key' = None"
  shows "map_of cache' key' = None"
proof -
  have b: "map_of (butlast cache) key' = None"
    using assms(4) by (rule map_of_butlast_None)
  have fl: "map_of (filter (\<lambda>kv. fst kv \<noteq> key) cache) key' = None"
    using assms(4) by (auto simp: map_of_eq_None_iff)
  from assms b fl show ?thesis
    by (auto simp: lru_cache_def split: option.splits prod.splits sum.splits if_splits)
qed


lemma service_get_characters_sent:
  "snd (service_get_characters self w args) = [listing_request self w args]"
  by (simp add: service_get_characters_def Let_def)

lemma service_get_character_by_id_sent:
  "snd (service_get_character_by_id self w cid) = [lookup_request self w cid]"
  by (simp add: service_get_character_by_id_def Let_def)

text \<open>
  Claim C1. Every request either operation of the service puts on the network carries
  the three authentication parameters \<^verbatim>\<open>ts\<close>, \<^verbatim>\<open>apikey\<close> and \<^verbatim>\<open>hash\<close>, in this order
  and before any other parameter: \<^verbatim>\<open>ts\<close> is the decimal text of the clock's whole
  seconds at this call, \<^verbatim>\<open>apikey\<close> the public key, \<^verbatim>\<open>hash\<close> the MD5 hex digest of
  timestamp, private key and public key concatenated in that order. The lookup by id
  sends these three and nothing else; the listing adds only \<^verbatim>\<open>limit\<close>, \<^verbatim>\<open>offset\<close> and
  possibly \<^verbatim>\<open>nameStartsWith\<close>. A call through the cache sends no request (a hit) or
  exactly this request, built from the clock of this very call.
\<close>

theorem auth_params_on_every_request:
  "generate_auth_params self w =
     [(''ts'', PStr (str_int (unix_time w))), (''apikey'', PStr (public_key self)),
      (''hash'', PStr (md5_hexdigest w
         (str_int (unix_time w) @ private_key self @ public_key self)))]
   \<and> snd (service_get_character_by_id self w cid) = [lookup_request self w cid]
   \<and> params (lookup_request self w cid) = generate_auth_params self w
   \<and> snd (service_get_characters self w (n, limit, offset))
       = [listing_request self w (n, limit, offset)]
   \<and> take 3 (params (listing_request self w (n, limit, offset))) = generate_auth_params self w
   \<and> (map fst (drop 3 (params (listing_request self w (n, limit, offset)))) = [''limit'', ''offset'']
      \<or> map fst (drop 3 (params (listing_request self w (n, limit, offset))))
          = [''limit'', ''offset'', ''nameStartsWith''])
   \<and> (\<forall>req \<in> set (snd (snd (cached_get_characters self w cache (n, limit, offset)))).
         req = listing_request self w (n, limit, offset))
   \<and> (\<forall>req \<in> set (snd (snd (cached_get_character_by_id self w cache' cid))).
         req = lookup_request self w cid)"
proof (intro conjI)
  show "generate_auth_params self w =
     [(''ts'', PStr (str_int (unix_time w))), (''apikey'', PStr (public_key self)),
      (''hash'', PStr (md5_hexdigest w
         (str_int (unix_time w) @ private_key self @ public_key self)))]"
    by (rule generate_auth_params_eq)
  show "snd (service_get_character_by_id self w cid) = [lookup_request self w cid]"
    by (rule service_get_character_by_id_sent)
  show "params (lookup_request self w cid) = generate_auth_params self w"
    by (simp add: lookup_request_def)
  show "snd (service_get_characters self w (n, limit, offset))
       = [listing_request self w (n, limit, offset)]"
    by (rule service_get_characters_sent)
  show "take 3 (params (listing_request self w (n, limit, offset))) = generate_auth_params self w"
    by (simp add: listing_request_params generate_auth_params_eq)
  show "map fst (drop 3 (params (listing_request self w (n, limit, offset)))) = [''limit'', ''offset'']
      \<or> map fst (drop 3 (params (listing_request self w (n, limit, offset))))
          = [''limit'', ''offset'', ''nameStartsWith'']"
    by (simp add: listing_request_params generate_auth_params_eq split: option.splits)
  show "\<forall>req \<in> set (snd (snd (cached_get_characters self w cache (n, limit, offset)))).
         req = listing_request self w (n, limit, offset)"
    by (simp add: cached_get_characters_def lru_cache_sent service_get_characters_sent
        split: option.splits)
  show "\<forall>req \<in> set (snd (snd (cached_get_character_by_id self w cache' cid))).
         req = lookup_request self w cid"
    by (simp add: cached_get_character_by_id_def lru_cache_sent service_get_character_by_id_sent
        split: option.splits)
qed

lemma str_int_example: "str_int 1700000000 = ''1700000000''"
  by (simp add: str_int_def)

theorem auth_params_on_every_request_witness:
  "snd (snd (cached_get_character_by_id marvel_service (world_with RequestRaises) [] 1009610))
     = [\<lparr>url = ''https://gateway.marvel.com/v1/public/characters/1009610'',
         params = [(''ts'', PStr ''1700000000''), (''apikey'', PStr ''pub1''),
                   (''hash'', PStr ''82a04d403b5cc0f459dbc7554d71217b'')],
         timeout = 10\<rparr>]
   \<and> snd (snd (cached_get_characters marvel_service (world_with RequestRaises) []
                  (Some ''spider'', 10, 0)))
     = [\<lparr>url = ''https://gateway.marvel.com/v1/public/characters'',
         params = [(''ts'', PStr ''1700000000''), (''apikey'', PStr ''pub1''),
                   (''hash'', PStr ''82a04d403b5cc0f459dbc7554d71217b''),
                   (''limit'', PInt 10), (''offset'', PInt 0),
                   (''nameStartsWith'', PStr ''spider'')],
         timeout = 10\<rparr>]"
proof -
  have id: "str_int 1009610 = ''1009610''"
    by (simp add: str_int_def)
  have a: "generate_auth_params marvel_service (world_with RequestRaises)
      = [(''ts'', PStr ''1700000000''), (''apikey'', PStr ''pub1''),
         (''hash'', PStr ''82a04d403b5cc0f459dbc7554d71217b'')]"
    by (simp add: generate_auth_params_eq str_int_example marvel_service_def world_with_def
        md5_known_def)
  have l: "lookup_request marvel_service (world_with RequestRaises) 1009610
      = \<lparr>url = ''https://gateway.marvel.com/v1/public/characters/1009610'',
         params = [(''ts'', PStr ''1700000000''), (''apikey'', PStr ''pub1''),
                   (''hash'', PStr ''82a04d403b5cc0f459dbc7554d71217b'')],
         timeout = 10\<rparr>"
    by (simp add: lookup_request_def a id) (simp add: marvel_service_def)
  have ps: "params (listing_request marvel_service (world_with RequestRaises)
        (Some ''spider'', 10, 0))
      = [(''ts'', PStr ''1700000000''), (''apikey'', PStr ''pub1''),
         (''hash'', PStr ''82a04d403b5cc0f459dbc7554d71217b''),
         (''limit'', PInt 10), (''offset'', PInt 0), (''nameStartsWith'', PStr ''spider'')]"
    by (simp add: listing_request_params a)
  have g: "listing_request marvel_service (world_with RequestRaises) (Some ''spider'', 10, 0)
      = \<lparr>url = ''https://gateway.marvel.com/v1/public/characters'',
         params = [(''ts'', PStr ''1700000000''), (''apikey'', PStr ''pub1''),
                   (''hash'', PStr ''82a04d403b5cc0f459dbc7554d71217b''),
                   (''limit'', PInt 10), (''offset'', PInt 0),
                   (''nameStartsWith'', PStr ''spider'')],
         timeout = 10\<rparr>"
    using ps by (simp add: listing_request_def marvel_service_def)
  have s1: "snd (snd (cached_get_character_by_id marvel_service (world_with RequestRaises) []
        1009610)) = [lookup_request marvel_service (world_with RequestRaises) 1009610]"
    by (simp add: cached_get_character_by_id_def lru_cache_sent service_get_character_by_id_sent)
  have s2: "snd (snd (cached_get_characters marvel_service (world_with RequestRaises) []
        (Some ''spider'', 10, 0)))
      = [listing_request marvel_service (world_with RequestRaises) (Some ''spider'', 10, 0)]"
    by (simp add: cached_get_characters_def lru_cache_sent service_get_characters_sent)
  from auth_params_on_every_request
    [of marvel_service "world_with RequestRaises" 1009610 "Some ''spider''" 10 0 "[]" "[]"]
    s1 s2 l g show ?thesis
    by simp
qed

text \<open>
  Claim C2, as amended. The \<^verbatim>\<open>limit\<close> forwarded upstream by \<^verbatim>\<open>get_characters\<close> is
  \<^verbatim>\<open>min(limit, 100)\<close>: a value above 100 is forwarded as 100, every other value is
  forwarded unchanged, and no value is rejected at this layer (the request is sent).
\<close>

theorem limit_forwarded_is_min_100:
  "map_of (params (listing_request self w (n, limit, offset))) ''limit''
     = Some (PInt (min limit 100))
   \<and> (100 < limit \<longrightarrow>
        map_of (params (listing_request self w (n, limit, offset))) ''limit'' = Some (PInt 100))
   \<and> (limit \<le> 100 \<longrightarrow>
        map_of (params (listing_request self w (n, limit, offset))) ''limit'' = Some (PInt limit))
   \<and> snd (service_get_characters self w (n, limit, offset))
       = [listing_request self w (n, limit, offset)]"
  by (simp add: listing_request_params generate_auth_params_eq service_get_characters_sent)

theorem limit_forwarded_is_min_100_witness:
  "map_of (params (listing_request marvel_service (world_with RequestRaises) (None, 200, 0)))
      ''limit'' = Some (PInt 100)
   \<and> map_of (params (listing_request marvel_service (world_with RequestRaises) (None, 20, 0)))
      ''limit'' = Some (PInt 20)"
  using limit_forwarded_is_min_100 [of marvel_service "world_with RequestRaises" None 200 0]
    limit_forwarded_is_min_100 [of marvel_service "world_with RequestRaises" None 20 0]
  by simp

text \<open>
  Claim C2 as stated fails: the source bounds the limit from above only, so the limits 0
  and -5 are forwarded as 0 and -5, not as 1.
\<close>

theorem limit_below_one_forwarded_unchanged:
  "map_of (params (listing_request marvel_service (world_with RequestRaises) (None, 0, 0)))
      ''limit'' = Some (PInt 0)
   \<and> map_of (params (listing_request marvel_service (world_with RequestRaises) (None, - 5, 0)))
      ''limit'' = Some (PInt (- 5))
   \<and> map_of (params (listing_request marvel_service (world_with RequestRaises) (None, 0, 0)))
      ''limit'' \<noteq> Some (PInt 1)"
  by (simp add: listing_request_params generate_auth_params_eq)


section \<open>The service: memoization\<close>

lemma fetch_world_with:
  "fetch (world_with (Response 200 (Json data))) req = Inr data"
  "fetch (world_with RequestRaises) req = Inl RequestException"
  by (simp_all add: fetch_def world_with_def)

lemma make_listing_empty: "make_listing (ok_world []) (envelope 200 []) = Some empty_page"
  by (simp add: make_listing_def envelope_def empty_page_def)

lemma service_empty_page:
  "service_get_characters marvel_service (ok_world []) args
     = (Inr empty_page, [listing_request marvel_service (ok_world []) args])"
proof -
  have "fetch (ok_world []) (listing_request marvel_service (ok_world []) args)
      = Inr (envelope 200 [])"
    by (simp add: ok_world_def fetch_world_with)
  moreover have "subscript (envelope 200 []) ''code'' = Some (JInt 200)"
    by (simp add: envelope_def)
  ultimately show ?thesis
    by (simp add: service_get_characters_def Let_def make_listing_empty)
qed

text \<open>
  Claim C3 as stated fails. The cache key is the argument tuple as passed, before the
  clamp inside the body: after a call with limit 150, a call with limit 200 (same
  search and offset) misses the cache and sends the very same request again, and the
  cache then holds two entries. Moreover a call that raises stores nothing, so two
  consecutive identical calls that fail put two requests on the network.
\<close>

theorem cache_key_is_the_unclamped_call:
  "cached_get_characters marvel_service (ok_world []) [] (Some ''spider'', 150, 0)
     = (Inr empty_page, [((Some ''spider'', 150, 0), empty_page)],
        [listing_request marvel_service (ok_world []) (Some ''spider'', 150, 0)])
   \<and> cached_get_characters marvel_service (ok_world [])
        [((Some ''spider'', 150, 0), empty_page)] (Some ''spider'', 200, 0)
     = (Inr empty_page,
        [((Some ''spider'', 200, 0), empty_page), ((Some ''spider'', 150, 0), empty_page)],
        [listing_request marvel_service (ok_world []) (Some ''spider'', 200, 0)])
   \<and> listing_request marvel_service (ok_world []) (Some ''spider'', 150, 0)
     = listing_request marvel_service (ok_world []) (Some ''spider'', 200, 0)
   \<and> cached_get_characters marvel_service (world_with RequestRaises) []
        (Some ''spider'', 10, 0)
     = (Inl (HTTPException 503), [],
        [listing_request marvel_service (world_with RequestRaises) (Some ''spider'', 10, 0)])"
proof (intro conjI)
  show "cached_get_characters marvel_service (ok_world []) [] (Some ''spider'', 150, 0)
     = (Inr empty_page, [((Some ''spider'', 150, 0), empty_page)],
        [listing_request marvel_service (ok_world []) (Some ''spider'', 150, 0)])"
    by (simp add: cached_get_characters_def lru_cache_def service_empty_page)
  show "cached_get_characters marvel_service (ok_world [])
        [((Some ''spider'', 150, 0), empty_page)] (Some ''spider'', 200, 0)
     = (Inr empty_page,
        [((Some ''spider'', 200, 0), empty_page), ((Some ''spider'', 150, 0), empty_page)],
        [listing_request marvel_service (ok_world []) (Some ''spider'', 200, 0)])"
    by (simp add: cached_get_characters_def lru_cache_def service_empty_page)
  show "listing_request marvel_service (ok_world []) (Some ''spider'', 150, 0)
     = listing_request marvel_service (ok_world []) (Some ''spider'', 200, 0)"
    by (simp add: listing_request_def)
  show "cached_get_characters marvel_service (world_with RequestRaises) []
        (Some ''spider'', 10, 0)
     = (Inl (HTTPException 503), [],
        [listing_request marvel_service (world_with RequestRaises) (Some ''spider'', 10, 0)])"
    by (simp add: cached_get_characters_def lru_cache_def service_get_characters_def Let_def
        fetch_world_with)
qed

text \<open>
  Claim C3, as amended. The cache of \<^verbatim>\<open>get_characters\<close> is keyed by the argument tuple
  as passed. When a call returns a result, it sent one request if its key was not in the
  cache and none otherwise, and the next call with the same arguments returns the same
  result from the cache with no request, whatever the network would answer: two
  consecutive identical calls, the first of which returns, make at most one upstream
  call, and exactly one from a cache without the key. A call that raises leaves the
  cache as it was, so the same call again goes to the network again. A call with other
  arguments, not in the cache before, is still not in the cache afterwards and goes to
  the network, also when both tuples are equal after clamping.
\<close>

theorem listing_cache_keyed_by_passed_arguments:
  "(cached_get_characters self w cache args = (Inr r, cache1, sent) \<longrightarrow>
      (map_of cache args = None \<longrightarrow> sent = [listing_request self w args])
    \<and> (map_of cache args \<noteq> None \<longrightarrow> sent = [])
    \<and> cached_get_characters self w' cache1 args
        = (Inr r, (args, r) # filter (\<lambda>kv. fst kv \<noteq> args) cache1, []))
   \<and> (cached_get_characters self w cache args = (Inl e, cache1, sent) \<longrightarrow>
      cache1 = cache \<and> sent = [listing_request self w args]
    \<and> snd (snd (cached_get_characters self w' cache1 args)) = [listing_request self w' args])
   \<and> (cached_get_characters self w cache args = (res, cache1, sent) \<and> args' \<noteq> args
        \<and> map_of cache args' = None \<longrightarrow>
      snd (snd (cached_get_characters self w' cache1 args')) = [listing_request self w' args'])"
proof (intro conjI impI)
  assume a: "cached_get_characters self w cache args = (Inr r, cache1, sent)"
  have s: "snd (snd (cached_get_characters self w cache args))
      = (case map_of cache args of Some v \<Rightarrow> [] | None \<Rightarrow> [listing_request self w args])"
    by (simp add: cached_get_characters_def lru_cache_sent service_get_characters_sent
        split: option.splits)
  show "sent = [listing_request self w args]" if "map_of cache args = None"
    using a s that by simp
  show "sent = []" if "map_of cache args \<noteq> None"
    using a s that by auto
  from a have "map_of cache1 args = Some r"
    unfolding cached_get_characters_def by (rule lru_cache_stores [rotated]) simp
  then show "cached_get_characters self w' cache1 args
        = (Inr r, (args, r) # filter (\<lambda>kv. fst kv \<noteq> args) cache1, [])"
    by (simp add: cached_get_characters_def lru_cache_def)
next
  assume a: "cached_get_characters self w cache args = (Inl e, cache1, sent)"
  then have f: "cache1 = cache \<and> map_of cache args = None
      \<and> service_get_characters self w args = (Inl e, sent)"
    unfolding cached_get_characters_def by (rule lru_cache_failure [rotated]) simp
  then show "cache1 = cache" by simp
  from f have "snd (service_get_characters self w args) = sent" by simp
  then show "sent = [listing_request self w args]"
    by (simp add: service_get_characters_sent)
  from f show "snd (snd (cached_get_characters self w' cache1 args))
      = [listing_request self w' args]"
    by (simp add: cached_get_characters_def lru_cache_sent service_get_characters_sent
        split: option.splits)
next
  assume a: "cached_get_characters self w cache args = (res, cache1, sent) \<and> args' \<noteq> args
        \<and> map_of cache args' = None"
  then have "map_of cache1 args' = None"
    unfolding cached_get_characters_def
    using lru_cache_other_key [of 100 "service_get_characters self w" cache args res cache1 sent args']
    by simp
  then show "snd (snd (cached_get_characters self w' cache1 args'))
      = [listing_request self w' args']"
    by (simp add: cached_get_characters_def lru_cache_sent service_get_characters_sent
        split: option.splits)
qed

theorem listing_cache_keyed_by_passed_arguments_witness:
  "cached_get_characters marvel_service (ok_world []) [] (Some ''spider'', 10, 0)
     = (Inr empty_page, [((Some ''spider'', 10, 0), empty_page)],
        [listing_request marvel_service (ok_world []) (Some ''spider'', 10, 0)])
   \<and> cached_get_characters marvel_service (world_with RequestRaises)
        [((Some ''spider'', 10, 0), empty_page)] (Some ''spider'', 10, 0)
     = (Inr empty_page, [((Some ''spider'', 10, 0), empty_page)], [])"
proof -
  have first: "cached_get_characters marvel_service (ok_world []) [] (Some ''spider'', 10, 0)
     = (Inr empty_page, [((Some ''spider'', 10, 0), empty_page)],
        [listing_request marvel_service (ok_world []) (Some ''spider'', 10, 0)])"
    by (simp add: cached_get_characters_def lru_cache_def service_empty_page)
  from listing_cache_keyed_by_passed_arguments
    [of marvel_service "ok_world []" "[]" "(Some ''spider'', 10, 0)" empty_page
      "[((Some ''spider'', 10, 0), empty_page)]"
      "[listing_request marvel_service (ok_world []) (Some ''spider'', 10, 0)]"
      "world_with RequestRaises"]
    first show ?thesis
    by simp
qed

section \<open>The service: lookup by id\<close>

lemma fetch_Inr_iff:
  "fetch w req = Inr data \<longleftrightarrow>
     (\<exists>s. http_get w req = Response s (Json data) \<and> \<not> (400 \<le> s \<and> s < 600))"
  by (auto simp: fetch_def split: reply.splits body.splits)

lemma fetch_RequestException_iff:
  "fetch w req = Inl RequestException \<longleftrightarrow>
     (http_get w req = RequestRaises
      \<or> (\<exists>s b. http_get w req = Response s b
            \<and> (400 \<le> s \<and> s < 600 \<or> b = JSONDecodeError)))"
  by (auto simp: fetch_def split: reply.splits body.splits)

lemma fetch_OtherException_iff:
  "fetch w req = Inl OtherException \<longleftrightarrow>
     (http_get w req = OtherRaises
      \<or> (\<exists>s. http_get w req = Response s DecodeRaises \<and> \<not> (400 \<le> s \<and> s < 600)))"
  by (auto simp: fetch_def split: reply.splits body.splits)

lemma make_character_id:
  "make_character w item = Some c \<Longrightarrow>
   Option.bind (subscript item ''id'') (int_field w) = Some (char_id c)"
  by (auto simp: make_character_def bind_eq_Some_conv)

lemma lookup_503_iff:
  "fst (service_get_character_by_id self w cid) = Inl (HTTPException 503)
     \<longleftrightarrow> fetch w (lookup_request self w cid) = Inl RequestException"
  by (auto simp: service_get_character_by_id_def Let_def
      split: option.splits sum.splits raised.splits)

lemma lookup_404_iff:
  "fst (service_get_character_by_id self w cid) = Inl (HTTPException 404)
     \<longleftrightarrow> (\<exists>data code. fetch w (lookup_request self w cid) = Inr data
            \<and> subscript data ''code'' = Some code
            \<and> (\<not> eq_200 code
               \<or> (\<exists>results.
                    Option.bind (subscript data ''data'') (\<lambda>d. subscript d ''results'')
                      = Some results
                  \<and> \<not> truthy results)))"
  by (auto simp: service_get_character_by_id_def Let_def
      split: option.splits sum.splits raised.splits)

lemma lookup_OtherException:
  "fetch w (lookup_request self w cid) = Inl OtherException \<Longrightarrow>
   fst (service_get_character_by_id self w cid) = Inl PyException"
  by (simp add: service_get_character_by_id_def Let_def)

lemma lookup_success:
  assumes "fst (service_get_character_by_id self w cid) = Inr c"
  shows "\<exists>data code results item. fetch w (lookup_request self w cid) = Inr data
            \<and> subscript data ''code'' = Some code \<and> eq_200 code
            \<and> Option.bind (subscript data ''data'') (\<lambda>d. subscript d ''results'') = Some results
            \<and> truthy results
            \<and> first_item results = Some item
            \<and> make_character w item = Some c
            \<and> Option.bind (subscript item ''id'') (int_field w) = Some (char_id c)"
  using assms
  by (auto simp: service_get_character_by_id_def Let_def bind_eq_Some_conv
      split: option.splits if_splits sum.splits raised.splits dest: make_character_id)

lemma get_character_result:
  "fst (get_character self w cache cid) =
     (case map_of cache cid of
        Some c \<Rightarrow> Inr c
      | None \<Rightarrow>
          (case fst (service_get_character_by_id self w cid) of
             Inl PyException \<Rightarrow> Inl (HTTPException 500)
           | r \<Rightarrow> r))"
proof -
  have r: "fst (cached_get_character_by_id self w cache cid) =
     (case map_of cache cid of Some v \<Rightarrow> Inr v
      | None \<Rightarrow> fst (service_get_character_by_id self w cid))"
    by (simp add: cached_get_character_by_id_def lru_cache_result)
  show ?thesis
  proof (cases "cached_get_character_by_id self w cache cid")
    case (fields res cache' sent)
    with r show ?thesis
      by (auto simp: get_character_def split: option.splits sum.splits exn.splits)
  qed
qed

lemma lookup_failure_codes:
  "fst (service_get_character_by_id self w cid) = Inl (HTTPException n) \<Longrightarrow> n = 404 \<or> n = 503"
  by (auto simp: service_get_character_by_id_def Let_def
      split: option.splits if_splits sum.splits raised.splits)

text \<open>
  Claim C4, as amended. It is about a lookup to which the upstream does not answer
  with an HTTP error status (400 to 599). Then \<^verbatim>\<open>get_character_by_id\<close> raises status 404
  exactly when the body is decoded and its envelope carries a \<^verbatim>\<open>code\<close> other than 200 or
  (with code 200) a result set that is empty or otherwise false. It raises status 503
  exactly when a \<^verbatim>\<open>RequestException\<close> is raised: by \<^verbatim>\<open>requests.get\<close> (connection failure,
  timeout) or as \<^verbatim>\<open>JSONDecodeError\<close> by \<^verbatim>\<open>response.json()\<close>. Any other exception of
  \<^verbatim>\<open>requests.get\<close> or of \<^verbatim>\<open>response.json()\<close> is not an \<^verbatim>\<open>HTTPException\<close>. A returned
  record is built from the first upstream result, and its id is that result's \<^verbatim>\<open>id\<close> as
  validated; the source does not compare it with the requested id.
  \<^verbatim>\<open>GET /characters/{id}\<close> answers an id found in the cache with the cached record;
  otherwise it passes 404 and 503 on as they are and turns every other failure into
  500, and these are all the statuses it gives.
\<close>

theorem get_character_by_id_outcomes:
  assumes "\<forall>s b. http_get w (lookup_request self w cid) = Response s b \<longrightarrow> s < 400 \<or> 600 \<le> s"
  shows "(fst (service_get_character_by_id self w cid) = Inl (HTTPException 404)
     \<longleftrightarrow> (\<exists>s data code. http_get w (lookup_request self w cid) = Response s (Json data)
            \<and> subscript data ''code'' = Some code
            \<and> (\<not> eq_200 code
               \<or> (\<exists>results.
                    Option.bind (subscript data ''data'') (\<lambda>d. subscript d ''results'')
                      = Some results
                  \<and> \<not> truthy results))))
   \<and> (fst (service_get_character_by_id self w cid) = Inl (HTTPException 503)
     \<longleftrightarrow> (http_get w (lookup_request self w cid) = RequestRaises
          \<or> (\<exists>s. http_get w (lookup_request self w cid) = Response s JSONDecodeError)))
   \<and> (http_get w (lookup_request self w cid) = OtherRaises
        \<or> (\<exists>s. http_get w (lookup_request self w cid) = Response s DecodeRaises) \<longrightarrow>
        fst (service_get_character_by_id self w cid) = Inl PyException)
   \<and> (fst (service_get_character_by_id self w cid) = Inr c \<longrightarrow>
        (\<exists>s data code results item.
              http_get w (lookup_request self w cid) = Response s (Json data)
            \<and> subscript data ''code'' = Some code \<and> eq_200 code
            \<and> Option.bind (subscript data ''data'') (\<lambda>d. subscript d ''results'') = Some results
            \<and> truthy results
            \<and> first_item results = Some item
            \<and> make_character w item = Some c
            \<and> Option.bind (subscript item ''id'') (int_field w) = Some (char_id c)))
   \<and> fst (get_character self w cache cid) =
       (case map_of cache cid of
          Some c' \<Rightarrow> Inr c'
        | None \<Rightarrow>
            (case fst (service_get_character_by_id self w cid) of
               Inl PyException \<Rightarrow> Inl (HTTPException 500)
             | r \<Rightarrow> r))
   \<and> (map_of cache cid = None \<longrightarrow>
        (status_of (fst (get_character self w cache cid)) = 404
           \<longleftrightarrow> fst (service_get_character_by_id self w cid) = Inl (HTTPException 404))
      \<and> (status_of (fst (get_character self w cache cid)) = 503
           \<longleftrightarrow> fst (service_get_character_by_id self w cid) = Inl (HTTPException 503))
      \<and> (status_of (fst (get_character self w cache cid)) = 500
           \<longleftrightarrow> fst (service_get_character_by_id self w cid) = Inl PyException))
   \<and> status_of (fst (get_character self w cache cid)) \<in> {200, 404, 503, 500}"
proof (intro conjI)
  let ?req = "lookup_request self w cid"
  have body: "fetch w ?req = Inr data \<longleftrightarrow> (\<exists>s. http_get w ?req = Response s (Json data))"
    for data
    using assms unfolding fetch_Inr_iff by fastforce
  have failed: "fetch w ?req = Inl RequestException \<longleftrightarrow>
      (http_get w ?req = RequestRaises \<or> (\<exists>s. http_get w ?req = Response s JSONDecodeError))"
    using assms unfolding fetch_RequestException_iff by fastforce
  have other: "fetch w ?req = Inl OtherException"
    if "http_get w ?req = OtherRaises \<or> (\<exists>s. http_get w ?req = Response s DecodeRaises)"
    using that assms unfolding fetch_OtherException_iff by fastforce
  show "fst (service_get_character_by_id self w cid) = Inl (HTTPException 404)
     \<longleftrightarrow> (\<exists>s data code. http_get w ?req = Response s (Json data)
            \<and> subscript data ''code'' = Some code
            \<and> (\<not> eq_200 code
               \<or> (\<exists>results.
                    Option.bind (subscript data ''data'') (\<lambda>d. subscript d ''results'')
                      = Some results
                  \<and> \<not> truthy results)))"
    unfolding lookup_404_iff body by blast
  show "fst (service_get_character_by_id self w cid) = Inl (HTTPException 503)
     \<longleftrightarrow> (http_get w ?req = RequestRaises
          \<or> (\<exists>s. http_get w ?req = Response s JSONDecodeError))"
    by (simp only: lookup_503_iff failed)
  show "http_get w ?req = OtherRaises
        \<or> (\<exists>s. http_get w ?req = Response s DecodeRaises) \<longrightarrow>
        fst (service_get_character_by_id self w cid) = Inl PyException"
    using other lookup_OtherException by blast
  show "fst (service_get_character_by_id self w cid) = Inr c \<longrightarrow>
        (\<exists>s data code results item.
              http_get w ?req = Response s (Json data)
            \<and> subscript data ''code'' = Some code \<and> eq_200 code
            \<and> Option.bind (subscript data ''data'') (\<lambda>d. subscript d ''results'') = Some results
            \<and> truthy results
            \<and> first_item results = Some item
            \<and> make_character w item = Some c
            \<and> Option.bind (subscript item ''id'') (int_field w) = Some (char_id c))"
  proof
    assume "fst (service_get_character_by_id self w cid) = Inr c"
    from lookup_success [OF this] obtain data code results item where
      d: "fetch w ?req = Inr data" and
      rest: "subscript data ''code'' = Some code" "eq_200 code"
        "Option.bind (subscript data ''data'') (\<lambda>d. subscript d ''results'') = Some results"
        "truthy results" "first_item results = Some item" "make_character w item = Some c"
        "Option.bind (subscript item ''id'') (int_field w) = Some (char_id c)"
      by blast
    from d obtain s where "http_get w ?req = Response s (Json data)"
      unfolding body by blast
    with rest show "\<exists>s data code results item.
              http_get w ?req = Response s (Json data)
            \<and> subscript data ''code'' = Some code \<and> eq_200 code
            \<and> Option.bind (subscript data ''data'') (\<lambda>d. subscript d ''results'') = Some results
            \<and> truthy results
            \<and> first_item results = Some item
            \<and> make_character w item = Some c
            \<and> Option.bind (subscript item ''id'') (int_field w) = Some (char_id c)"
      by blast
  qed
  show r: "fst (get_character self w cache cid) =
       (case map_of cache cid of
          Some c' \<Rightarrow> Inr c'
        | None \<Rightarrow>
            (case fst (service_get_character_by_id self w cid) of
               Inl PyException \<Rightarrow> Inl (HTTPException 500)
             | r \<Rightarrow> r))"
    by (rule get_character_result)
  have codes: "n = 404 \<or> n = 503"
    if "fst (service_get_character_by_id self w cid) = Inl (HTTPException n)" for n
    using that by (rule lookup_failure_codes)
  show "map_of cache cid = None \<longrightarrow>
        (status_of (fst (get_character self w cache cid)) = 404
           \<longleftrightarrow> fst (service_get_character_by_id self w cid) = Inl (HTTPException 404))
      \<and> (status_of (fst (get_character self w cache cid)) = 503
           \<longleftrightarrow> fst (service_get_character_by_id self w cid) = Inl (HTTPException 503))
      \<and> (status_of (fst (get_character self w cache cid)) = 500
           \<longleftrightarrow> fst (service_get_character_by_id self w cid) = Inl PyException)"
    using codes by (auto simp: r split: sum.splits exn.splits)
  show "status_of (fst (get_character self w cache cid)) \<in> {200, 404, 503, 500}"
    using codes by (auto simp: r split: option.splits sum.splits exn.splits)
qed

lemma make_spiderman: "make_character (world_with r) spiderman_json = Some spiderman_record"
  by (simp add: make_character_def world_with_def spiderman_json_def spiderman_record_def
      available_def make_url_def)

lemma lookup_spiderman:
  "fst (service_get_character_by_id marvel_service (ok_world [spiderman_json]) cid)
     = Inr spiderman_record"
proof -
  have "fetch (ok_world [spiderman_json])
      (lookup_request marvel_service (ok_world [spiderman_json]) cid)
      = Inr (envelope 200 [spiderman_json])"
    by (simp add: ok_world_def fetch_def world_with_def)
  moreover have "subscript (envelope 200 [spiderman_json]) ''code'' = Some (JInt 200)"
    by (simp add: envelope_def)
  moreover have "Option.bind (subscript (envelope 200 [spiderman_json]) ''data'')
      (\<lambda>d. subscript d ''results'') = Some (JArr [spiderman_json])"
    by (simp add: envelope_def)
  moreover have "make_character (ok_world [spiderman_json]) spiderman_json
      = Some spiderman_record"
    by (simp add: ok_world_def make_spiderman)
  ultimately show ?thesis
    by (simp add: service_get_character_by_id_def Let_def)
qed

text \<open>
  Claim C4 as stated fails. An envelope with code 409 and a result set that is not
  empty gives 404, so 404 is not reserved to the empty result set. When the upstream
  answers the lookup of id 1009351 with the record of 1009610, the call succeeds with
  a record whose id is not the requested one. And an HTTP status 404 from the upstream,
  around an empty result set, gives 503, not 404: this last case is the request of the
  repository's test \<^verbatim>\<open>test_get_invalid_character\<close>, which expects 404, and the amended
  claim above leaves it out.
\<close>

theorem not_found_without_empty_result_set:
  "fst (get_character marvel_service
          (world_with (Response 200 (Json (envelope 409 [spiderman_json])))) [] 1009610)
     = Inl (HTTPException 404)
   \<and> fst (get_character marvel_service
          (world_with (Response 404 (Json (envelope 404 [])))) [] 999999999)
     = Inl (HTTPException 503)
   \<and> fst (get_character marvel_service (ok_world [spiderman_json]) [] 1009351)
     = Inr spiderman_record
   \<and> char_id spiderman_record \<noteq> 1009351"
proof (intro conjI)
  have "fst (service_get_character_by_id marvel_service
          (world_with (Response 200 (Json (envelope 409 [spiderman_json])))) 1009610)
     = Inl (HTTPException 404)"
    by (simp add: service_get_character_by_id_def Let_def fetch_def world_with_def envelope_def)
  then show "fst (get_character marvel_service
          (world_with (Response 200 (Json (envelope 409 [spiderman_json])))) [] 1009610)
     = Inl (HTTPException 404)"
    by (simp add: get_character_result)
  have "fst (service_get_character_by_id marvel_service
          (world_with (Response 404 (Json (envelope 404 [])))) 999999999)
     = Inl (HTTPException 503)"
    by (simp add: service_get_character_by_id_def Let_def fetch_def world_with_def)
  then show "fst (get_character marvel_service
          (world_with (Response 404 (Json (envelope 404 [])))) [] 999999999)
     = Inl (HTTPException 503)"
    by (simp add: get_character_result)
  show "fst (get_character marvel_service (ok_world [spiderman_json]) [] 1009351)
     = Inr spiderman_record"
    by (simp add: get_character_result lookup_spiderman)
  show "char_id spiderman_record \<noteq> 1009351"
    by (simp add: spiderman_record_def)
qed

theorem get_character_by_id_outcomes_witness:
  "fst (get_character marvel_service (ok_world [spiderman_json]) [] 1009610)
     = Inr spiderman_record
   \<and> status_of (fst (get_character marvel_service (ok_world [spiderman_json]) [] 1009610)) = 200
   \<and> Option.bind (subscript spiderman_json ''id'') strict_int = Some 1009610
   \<and> status_of (fst (get_character marvel_service (ok_world []) [] 999999999)) = 404
   \<and> status_of (fst (get_character marvel_service (world_with RequestRaises) [] 1009610)) = 503
   \<and> status_of (fst (get_character marvel_service (world_with (Response 200 DecodeRaises)) []
        1009610)) = 500"
proof -
  have ok: "\<forall>s b. http_get (world_with r) req = Response s b \<longrightarrow> s < 400 \<or> 600 \<le> s"
    if "r = RequestRaises \<or> (\<exists>b. r = Response 200 b)" for r req
    using that by (auto simp: world_with_def)
  have ok1: "\<forall>s b. http_get (ok_world rs) req = Response s b \<longrightarrow> s < 400 \<or> 600 \<le> s"
    for rs req
    unfolding ok_world_def by (rule ok) simp
  have i: "Option.bind (subscript spiderman_json ''id'') strict_int = Some 1009610"
    by (simp add: spiderman_json_def)
  have e: "fst (service_get_character_by_id marvel_service (ok_world []) 999999999)
     = Inl (HTTPException 404)"
    by (simp add: service_get_character_by_id_def Let_def fetch_def world_with_def envelope_def
        ok_world_def)
  have d: "http_get (world_with (Response 200 DecodeRaises)) req = Response 200 DecodeRaises"
    for req
    by (simp add: world_with_def)
  have u: "http_get (world_with RequestRaises) req = RequestRaises" for req
    by (simp add: world_with_def)
  from get_character_by_id_outcomes [OF ok1, of marvel_service "[spiderman_json]" 1009610
      spiderman_record "[]"]
    get_character_by_id_outcomes [OF ok1, of marvel_service "[]" 999999999 spiderman_record "[]"]
    get_character_by_id_outcomes [OF ok, of RequestRaises marvel_service 1009610
      spiderman_record "[]"]
    get_character_by_id_outcomes [OF ok, of "Response 200 DecodeRaises" marvel_service 1009610
      spiderman_record "[]"]
    lookup_spiderman [of 1009610] e u d i
  show ?thesis by simp
qed

section \<open>The listing route\<close>

lemma listing_cached_result:
  "fst (cached_get_characters self w cache args) =
     (case map_of cache args of Some v \<Rightarrow> Inr v
      | None \<Rightarrow> fst (service_get_characters self w args))"
  by (simp add: cached_get_characters_def lru_cache_result)

lemma get_characters_catch_all:
  assumes "1 \<le> limit" and "limit \<le> 100" and "0 \<le> offset"
    and "fst (cached_get_characters self w cache (search, limit, offset)) = Inl e"
  shows "fst (get_characters self w cache search limit offset) = Inl (HTTPException 500)"
proof (cases "cached_get_characters self w cache (search, limit, offset)")
  case (fields res cache' sent)
  with assms show ?thesis
    by (simp add: get_characters_def)
qed

text \<open>
  Claim C9. In \<^verbatim>\<open>GET /characters\<close>, for a query the framework lets through, every
  exception the service call raises becomes status 500: in particular the
  \<^verbatim>\<open>HTTPException\<close> with status 503 that the service raises when the request fails, and
  the one with status 400 it raises when the envelope's code is not 200.
\<close>

theorem listing_failures_surface_as_500:
  assumes "1 \<le> limit" and "limit \<le> 100" and "0 \<le> offset"
  shows "(fst (cached_get_characters self w cache (search, limit, offset)) = Inl e \<longrightarrow>
            fst (get_characters self w cache search limit offset) = Inl (HTTPException 500)
          \<and> status_of (fst (get_characters self w cache search limit offset)) = 500)
       \<and> (map_of cache (search, limit, offset) = None
            \<and> fetch w (listing_request self w (search, limit, offset)) = Inl RequestException \<longrightarrow>
            fst (cached_get_characters self w cache (search, limit, offset))
              = Inl (HTTPException 503)
          \<and> status_of (fst (get_characters self w cache search limit offset)) = 500)
       \<and> (map_of cache (search, limit, offset) = None
            \<and> fetch w (listing_request self w (search, limit, offset)) = Inr data
            \<and> subscript data ''code'' = Some code \<and> \<not> eq_200 code
            \<and> subscript data ''status'' = Some s \<longrightarrow>
            fst (cached_get_characters self w cache (search, limit, offset))
              = Inl (HTTPException 400)
          \<and> status_of (fst (get_characters self w cache search limit offset)) = 500)"
proof (intro conjI impI)
  assume "fst (cached_get_characters self w cache (search, limit, offset)) = Inl e"
  with assms show a: "fst (get_characters self w cache search limit offset) = Inl (HTTPException 500)"
    by (rule get_characters_catch_all)
  then show "status_of (fst (get_characters self w cache search limit offset)) = 500"
    by simp
next
  assume h: "map_of cache (search, limit, offset) = None
            \<and> fetch w (listing_request self w (search, limit, offset)) = Inl RequestException"
  then show c: "fst (cached_get_characters self w cache (search, limit, offset))
              = Inl (HTTPException 503)"
    by (simp add: listing_cached_result service_get_characters_def Let_def)
  from assms c have "fst (get_characters self w cache search limit offset) = Inl (HTTPException 500)"
    by (rule get_characters_catch_all)
  then show "status_of (fst (get_characters self w cache search limit offset)) = 500"
    by simp
next
  assume h: "map_of cache (search, limit, offset) = None
            \<and> fetch w (listing_request self w (search, limit, offset)) = Inr data
            \<and> subscript data ''code'' = Some code \<and> \<not> eq_200 code
            \<and> subscript data ''status'' = Some s"
  then show c: "fst (cached_get_characters self w cache (search, limit, offset))
              = Inl (HTTPException 400)"
    by (simp add: listing_cached_result service_get_characters_def Let_def)
  from assms c have "fst (get_characters self w cache search limit offset) = Inl (HTTPException 500)"
    by (rule get_characters_catch_all)
  then show "status_of (fst (get_characters self w cache search limit offset)) = 500"
    by simp
qed

theorem listing_failures_surface_as_500_witness:
  "fst (cached_get_characters marvel_service (world_with RequestRaises) [] (None, 20, 0))
     = Inl (HTTPException 503)
   \<and> fst (get_characters marvel_service (world_with RequestRaises) [] None 20 0)
     = Inl (HTTPException 500)
   \<and> fst (cached_get_characters marvel_service
            (world_with (Response 200 (Json (envelope 409 [])))) [] (None, 20, 0))
     = Inl (HTTPException 400)
   \<and> fst (get_characters marvel_service
            (world_with (Response 200 (Json (envelope 409 [])))) [] None 20 0)
     = Inl (HTTPException 500)"
proof -
  have b: "(1::int) \<le> 20" "(20::int) \<le> 100" "(0::int) \<le> 0"
    by simp_all
  have u: "fst (cached_get_characters marvel_service (world_with RequestRaises) []
      (None, 20, 0)) = Inl (HTTPException 503)"
    by (simp add: listing_cached_result service_get_characters_def Let_def fetch_def
        world_with_def)
  have p: "fst (cached_get_characters marvel_service
      (world_with (Response 200 (Json (envelope 409 [])))) [] (None, 20, 0))
      = Inl (HTTPException 400)"
    by (simp add: listing_cached_result service_get_characters_def Let_def fetch_def
        world_with_def envelope_def)
  from listing_failures_surface_as_500 [OF b, of marvel_service "world_with RequestRaises" "[]"
      None "HTTPException 503"]
    listing_failures_surface_as_500 [OF b, of marvel_service
      "world_with (Response 200 (Json (envelope 409 [])))" "[]" None "HTTPException 400"]
    u p show ?thesis
    by simp
qed

end
